theory Spec2Isabelle
  imports Complex_Main "HOL-Library.List_Lexorder" "HOL-Library.Char_ord" "HOL-Library.Multiset"
begin

section \<open>Values of a DataFrame column\<close>

text \<open>
  A cell of a text (object) column as \<^verbatim>\<open>pd.read_csv\<close> delivers it: the missing value
  \<^verbatim>\<open>NaN\<close> or a Python string. A column that the reader types as numbers is taken
  here by the texts of its numbers.
\<close>

datatype cell = NaN | Str string

datatype error = TypeError | ZeroDivisionError | AttributeError

text \<open>\<^verbatim>\<open>.astype(str)\<close>: the missing value becomes the text \<^verbatim>\<open>nan\<close>.\<close>

fun astype_str :: "cell \<Rightarrow> string" where
  "astype_str NaN = ''nan''"
| "astype_str (Str s) = s"

text \<open>
  \<^verbatim>\<open>str.isspace\<close> on the ASCII range: tab, line feed, vertical tab, form feed, carriage
  return, the four separators 28 to 31, and the space. Whitespace beyond ASCII is several
  bytes here and is not stripped by this model.
\<close>

definition isspace :: "char \<Rightarrow> bool" where
  "isspace c = (let n = (of_char c :: nat) in (9 \<le> n \<and> n \<le> 13) \<or> (28 \<le> n \<and> n \<le> 32))"

text \<open>\<^verbatim>\<open>.str.strip()\<close>: drop whitespace at both ends.\<close>

definition strip :: "string \<Rightarrow> string" where
  "strip s = rev (dropWhile isspace (rev (dropWhile isspace s)))"

text \<open>\<^verbatim>\<open>Series.replace(old, new)\<close> with two strings replaces a value that equals
  \<^verbatim>\<open>old\<close> as a whole.\<close>

definition replace_value :: "string \<Rightarrow> string \<Rightarrow> string \<Rightarrow> string" where
  "replace_value old new s = (if s = old then new else s)"

text \<open>Line 64 of Data\_P.py:
  \<^verbatim>\<open>df[col].astype(str).str.strip().replace('nan', 'Unknown')\<close>.\<close>

definition clean_string :: "cell \<Rightarrow> string" where
  "clean_string c = replace_value ''nan'' ''Unknown'' (strip (astype_str c))"

section \<open>Timestamps\<close>

text \<open>
  A \<^verbatim>\<open>pd.Timestamp\<close> without time zone, by its calendar fields. The sub-second part is
  one field, in nanoseconds. The library orders, subtracts and dates timestamps by their
  value, the nanoseconds since 1970-01-01.
\<close>

record timestamp =
  year :: nat
  month :: nat
  day :: nat
  hour :: nat
  minute :: nat
  second :: nat
  nanosecond :: nat

text \<open>Days since 1970-01-01 of a date of the proleptic Gregorian calendar.\<close>

definition days_from_civil :: "nat \<Rightarrow> nat \<Rightarrow> nat \<Rightarrow> int" where
  "days_from_civil y m d =
     (let y' = (if m \<le> 2 then int y - 1 else int y);
          era = y' div 400;
          yoe = y' - era * 400;
          mp = (if m > 2 then int m - 3 else int m + 9);
          doy = (153 * mp + 2) div 5 + int d - 1;
          doe = yoe * 365 + yoe div 4 - yoe div 100 + doy
      in era * 146097 + doe - 719468)"

text \<open>The value of a timestamp: nanoseconds since the epoch.\<close>

definition to_ns :: "timestamp \<Rightarrow> int" where
  "to_ns t =
     (((days_from_civil (year t) (month t) (day t) * 24 + int (hour t)) * 60
        + int (minute t)) * 60 + int (second t)) * 1000000000 + int (nanosecond t)"

section \<open>Data\_P.py: the normalizer\<close>

text \<open>
  A row of the raw export after \<^verbatim>\<open>pd.read_csv\<close>, with the eight columns that lines
  23 to 41 rename and keep; the field names are the headers of the raw file. (On a raw
  file without one of them line 37 raises \<^verbatim>\<open>KeyError\<close>; such a frame is not a value
  of this type.)
\<close>

record raw_row =
  raw_Complaint_ID :: cell
  raw_Type_of_Complaint :: cell
  raw_Time_Received :: cell
  raw_Time_Resolved :: cell
  raw_Assigned_To :: cell
  raw_Complaint_Status :: cell
  raw_District :: cell
  raw_Branch :: cell

text \<open>A row of the frame after step 4 (line 64), under the names of lines 37 to 41 and
  the two columns that step 3 adds.\<close>

record complaint =
  Complaint_ID :: cell
  Type_of_Complaint_Received :: string
  Time_Complaint_Received :: "timestamp option"
  Time_Complaint_Resolved :: "timestamp option"
  Assigned_Staff :: string
  Complaint_Status :: string
  Location_District :: string
  Branch_Name :: string
  Resolution_Time :: "int option"
  Resolution_Time_Hours :: "real option"

text \<open>Line 50: the difference of two timestamp columns, in nanoseconds; \<^verbatim>\<open>NaT\<close> where
  either side is \<^verbatim>\<open>NaT\<close>.\<close>

fun timedelta_sub :: "timestamp option \<Rightarrow> timestamp option \<Rightarrow> int option" where
  "timedelta_sub (Some b) (Some a) = Some (to_ns b - to_ns a)"
| "timedelta_sub _ _ = None"

text \<open>Line 53: \<^verbatim>\<open>df.loc[df['Resolution_Time'] < timedelta(0), 'Resolution_Time'] = pd.NaT\<close>.
  A comparison with \<^verbatim>\<open>NaT\<close> is false, so \<^verbatim>\<open>NaT\<close> stays.\<close>

fun drop_negative :: "int option \<Rightarrow> int option" where
  "drop_negative (Some d) = (if d < 0 then None else Some d)"
| "drop_negative None = None"

text \<open>Line 56: \<^verbatim>\<open>.dt.total_seconds() / 3600\<close>. The float is a real number here.\<close>

definition total_hours :: "int option \<Rightarrow> real option" where
  "total_hours td = map_option (\<lambda>d. real_of_int d / 1000000000 / 3600) td"

text \<open>
  Steps 1 to 4 on one row: every step is an operation on whole columns that acts on each
  row by itself. \<^verbatim>\<open>pd.to_datetime(..., format='mixed', errors='coerce')\<close> is the
  parameter \<open>to_datetime\<close>: with \<^verbatim>\<open>format='mixed'\<close> each value is parsed on its own,
  and with \<^verbatim>\<open>errors='coerce'\<close> a value that does not parse is \<^verbatim>\<open>NaT\<close>, which is
  \<open>None\<close>.
\<close>

definition process_row :: "(cell \<Rightarrow> timestamp option) \<Rightarrow> raw_row \<Rightarrow> complaint" where
  "process_row to_datetime r =
     (let received = to_datetime (raw_Time_Received r);
          resolved = to_datetime (raw_Time_Resolved r);
          rt = drop_negative (timedelta_sub resolved received)
      in \<lparr> Complaint_ID = raw_Complaint_ID r,
           Type_of_Complaint_Received = clean_string (raw_Type_of_Complaint r),
           Time_Complaint_Received = received,
           Time_Complaint_Resolved = resolved,
           Assigned_Staff = clean_string (raw_Assigned_To r),
           Complaint_Status = clean_string (raw_Complaint_Status r),
           Location_District = clean_string (raw_District r),
           Branch_Name = clean_string (raw_Branch r),
           Resolution_Time = rt,
           Resolution_Time_Hours = total_hours rt \<rparr>)"


text \<open>The five columns of \<^verbatim>\<open>string_cols\<close> (lines 59 to 62), each with the column of the
  raw frame it is renamed from.\<close>

definition string_col_pairs :: "((raw_row \<Rightarrow> cell) \<times> (complaint \<Rightarrow> string)) list" where
  "string_col_pairs =
     [(raw_Type_of_Complaint, Type_of_Complaint_Received), (raw_District, Location_District),
      (raw_Assigned_To, Assigned_Staff), (raw_Complaint_Status, Complaint_Status),
      (raw_Branch, Branch_Name)]"

section \<open>The canonical file\<close>











definition isdigit :: "char \<Rightarrow> bool" where
  "isdigit c = (let n = (of_char c :: nat) in 48 \<le> n \<and> n \<le> 57)"

definition digit_val :: "char \<Rightarrow> nat" where
  "digit_val c = of_char c - 48"

definition parse_digits :: "string \<Rightarrow> nat option" where
  "parse_digits s = (if list_all isdigit s then Some (fold (\<lambda>c n. 10 * n + digit_val c) s 0) else None)"

definition is_leap :: "nat \<Rightarrow> bool" where
  "is_leap y = (y mod 4 = 0 \<and> (y mod 100 \<noteq> 0 \<or> y mod 400 = 0))"

definition days_in_month :: "nat \<Rightarrow> nat \<Rightarrow> nat" where
  "days_in_month y m =
     (if m = 2 then (if is_leap y then 29 else 28)
      else if m = 4 \<or> m = 6 \<or> m = 9 \<or> m = 11 then 30 else 31)"

text \<open>The fields of a timestamp are those of a real instant in the range of
  \<^verbatim>\<open>pd.Timestamp\<close>.\<close>

definition valid_timestamp :: "timestamp \<Rightarrow> bool" where
  "valid_timestamp t =
     (1677 \<le> year t \<and> year t \<le> 2262 \<and> 1 \<le> month t \<and> month t \<le> 12
      \<and> 1 \<le> day t \<and> day t \<le> days_in_month (year t) (month t)
      \<and> hour t < 24 \<and> minute t < 60 \<and> second t < 60 \<and> nanosecond t < 1000000000)"

text \<open>
  Reading a text in the layout that line 71 of Data\_P.py writes,
  \<^verbatim>\<open>YYYY-MM-DD HH:MM:SS\<close>: the six numbers, checked to be an instant. Any other text is
  \<open>None\<close> here (the library reads more layouts, none of which the normalizer writes).
\<close>

definition parse_iso :: "string \<Rightarrow> timestamp option" where
  "parse_iso s =
     (if length s = 19 \<and> s ! 4 = CHR ''-'' \<and> s ! 7 = CHR ''-'' \<and> s ! 10 = CHR '' ''
         \<and> s ! 13 = CHR '':'' \<and> s ! 16 = CHR '':''
      then
        (case (parse_digits (take 4 s), parse_digits (take 2 (drop 5 s)),
               parse_digits (take 2 (drop 8 s)), parse_digits (take 2 (drop 11 s)),
               parse_digits (take 2 (drop 14 s)), parse_digits (take 2 (drop 17 s))) of
           (Some y, Some m, Some d, Some h, Some mi, Some sec) \<Rightarrow>
             (let t = \<lparr> year = y, month = m, day = d, hour = h, minute = mi, second = sec,
                        nanosecond = 0 \<rparr>
              in if valid_timestamp t then Some t else None)
         | _ \<Rightarrow> None)
      else None)"

text \<open>
  Line 49 of Dashboard.py, \<^verbatim>\<open>pd.to_datetime(col, errors='coerce')\<close>, on a column of the
  canonical file: a missing value and a text that does not parse are \<^verbatim>\<open>NaT\<close>.
\<close>

fun to_datetime_coerce :: "cell \<Rightarrow> timestamp option" where
  "to_datetime_coerce NaN = None"
| "to_datetime_coerce (Str s) = parse_iso s"

section \<open>Dashboard.py: loading, filtering, summarizing\<close>

text \<open>A row of \<^verbatim>\<open>df\<close> after \<^verbatim>\<open>load_processed_data\<close>: the text columns are what
  \<^verbatim>\<open>pd.read_csv\<close> read, only the received time is converted (line 49).\<close>

record row =
  df_Complaint_ID :: cell
  df_Type_of_Complaint_Received :: cell
  df_Time_Complaint_Received :: "timestamp option"
  df_Time_Complaint_Resolved :: cell
  df_Assigned_Staff :: cell
  df_Complaint_Status :: cell
  df_Location_District :: cell
  df_Branch_Name :: cell
  df_Resolution_Time :: cell
  df_Resolution_Time_Hours :: "real option"


subsection \<open>Dates of timestamps\<close>

text \<open>
  A \<^verbatim>\<open>datetime.date\<close> is its day number (days since 1970-01-01): dates compare as
  their day numbers do. The library reads the date of a timestamp off its value.
\<close>

definition ns_per_day :: int where
  "ns_per_day = 86400000000000"

text \<open>\<^verbatim>\<open>.dt.date\<close> and \<^verbatim>\<open>Timestamp.date()\<close>.\<close>

definition date_of :: "timestamp \<Rightarrow> int" where
  "date_of t = to_ns t div ns_per_day"

text \<open>\<^verbatim>\<open>Series.min()\<close> and \<^verbatim>\<open>Series.max()\<close> of a timestamp column skip \<^verbatim>\<open>NaT\<close>; the
  result is \<^verbatim>\<open>NaT\<close> when nothing is left.\<close>

fun dropna :: "'a option list \<Rightarrow> 'a list" where
  "dropna [] = []"
| "dropna (None # xs) = dropna xs"
| "dropna (Some x # xs) = x # dropna xs"

definition ts_min :: "timestamp \<Rightarrow> timestamp \<Rightarrow> timestamp" where
  "ts_min b a = (if to_ns b < to_ns a then b else a)"

definition ts_max :: "timestamp \<Rightarrow> timestamp \<Rightarrow> timestamp" where
  "ts_max b a = (if to_ns a < to_ns b then b else a)"

definition series_min :: "timestamp option list \<Rightarrow> timestamp option" where
  "series_min col = (case dropna col of [] \<Rightarrow> None | t # ts \<Rightarrow> Some (fold ts_min ts t))"

definition series_max :: "timestamp option list \<Rightarrow> timestamp option" where
  "series_max col = (case dropna col of [] \<Rightarrow> None | t # ts \<Rightarrow> Some (fold ts_max ts t))"

text \<open>\<^verbatim>\<open>Series.mean()\<close> of a float column skips \<^verbatim>\<open>NaN\<close>: the sum of the values present
  over their number, \<^verbatim>\<open>NaN\<close> when there is none.\<close>

definition series_mean :: "real option list \<Rightarrow> real option" where
  "series_mean col =
     (let (s, n) = fold (\<lambda>x (s, n). case x of None \<Rightarrow> (s, n) | Some v \<Rightarrow> (s + v, Suc n)) col (0, 0 :: nat)
      in if n = 0 then None else Some (s / real n))"

text \<open>Python's \<^verbatim>\<open>/\<close>.\<close>

definition py_truediv :: "real \<Rightarrow> real \<Rightarrow> error + real" where
  "py_truediv a b = (if b = 0 then Inl ZeroDivisionError else Inr (a / b))"

subsection \<open>The filters (lines 121 to 174)\<close>

record criteria =
  selected_districts :: "cell list"
  selected_branches :: "cell list"
  selected_types :: "cell list"
  start_date :: int
  end_date :: int

text \<open>\<^verbatim>\<open>Series.isin(values)\<close>.\<close>

definition isin :: "cell \<Rightarrow> cell list \<Rightarrow> bool" where
  "isin v vals = (v \<in> set vals)"

text \<open>Lines 172 and 173: \<^verbatim>\<open>df[...].dt.date >= start_date\<close> and \<^verbatim>\<open><= end_date\<close>. The
  date of \<^verbatim>\<open>NaT\<close> is missing, and a comparison with a missing value is false.\<close>

fun date_ge :: "timestamp option \<Rightarrow> int \<Rightarrow> bool" where
  "date_ge None d = False"
| "date_ge (Some t) d = (d \<le> date_of t)"

fun date_le :: "timestamp option \<Rightarrow> int \<Rightarrow> bool" where
  "date_le None d = False"
| "date_le (Some t) d = (date_of t \<le> d)"

text \<open>Lines 168 to 174: the rows where all five masks hold, in the order of the frame.\<close>

definition df_filtered :: "row list \<Rightarrow> criteria \<Rightarrow> row list" where
  "df_filtered df c =
     filter (\<lambda>r. isin (df_Location_District r) (selected_districts c)
                \<and> isin (df_Branch_Name r) (selected_branches c)
                \<and> isin (df_Type_of_Complaint_Received r) (selected_types c)
                \<and> date_ge (df_Time_Complaint_Received r) (start_date c)
                \<and> date_le (df_Time_Complaint_Received r) (end_date c)) df"






subsection \<open>The indicators\<close>

text \<open>
  \<^verbatim>\<open>Timestamp.normalize()\<close> sets the time to midnight; the result is given by its value.
  \<^verbatim>\<open>NaT\<close> has no such method: the call raises \<^verbatim>\<open>AttributeError\<close>.
\<close>

fun normalize :: "timestamp option \<Rightarrow> error + int" where
  "normalize None = Inl AttributeError"
| "normalize (Some t) = Inr (to_ns t - to_ns t mod ns_per_day)"

text \<open>Lines 55 to 57 and 207 to 209: the earliest and the latest received time,
  normalized, then \<^verbatim>\<open>(end_date - start_date).days + 1\<close>.\<close>

definition total_days :: "timestamp option list \<Rightarrow> error + int" where
  "total_days col =
     (case normalize (series_min col) of
        Inl e \<Rightarrow> Inl e
      | Inr start_d \<Rightarrow>
          (case normalize (series_max col) of
             Inl e \<Rightarrow> Inl e
           | Inr end_d \<Rightarrow> Inr ((end_d - start_d) div ns_per_day + 1)))"




text \<open>The indicators of the filtered frame, lines 200 to 212, each under the name of
  its variable.\<close>

definition total_filtered_complaints :: "row list \<Rightarrow> nat" where
  "total_filtered_complaints dff = length dff"

definition filtered_closed :: "row list \<Rightarrow> row list" where
  "filtered_closed dff = filter (\<lambda>r. df_Complaint_Status r = Str ''Closed'') dff"

definition filtered_avg_resolution_time :: "row list \<Rightarrow> real option" where
  "filtered_avg_resolution_time dff = series_mean (map df_Resolution_Time_Hours (filtered_closed dff))"

definition filtered_resolution_rate :: "row list \<Rightarrow> error + real" where
  "filtered_resolution_rate dff =
     (if total_filtered_complaints dff > 0
      then (case py_truediv (real (length (filtered_closed dff)))
                            (real (total_filtered_complaints dff)) of
              Inl e \<Rightarrow> Inl e
            | Inr q \<Rightarrow> Inr (q * 100))
      else Inr 0)"

definition filtered_avg_daily_complaints :: "row list \<Rightarrow> error + real" where
  "filtered_avg_daily_complaints dff =
     (if map df_Time_Complaint_Received dff \<noteq> [] then
        (case total_days (map df_Time_Complaint_Received dff) of
           Inl e \<Rightarrow> Inl e
         | Inr d \<Rightarrow>
             if d > 0 then py_truediv (real (total_filtered_complaints dff)) (real_of_int d)
             else Inr 0)
      else Inr 0)"

text \<open>Line 247, the value of the fifth metric.\<close>

definition active_open_complaints :: "row list \<Rightarrow> nat" where
  "active_open_complaints dff =
     length (filter (\<lambda>r. isin (df_Complaint_Status r) [Str ''Pending'', Str ''Open'']) dff)"

text \<open>The summary statistics of a frame: the indicators above in the order in which the
  script computes them, under the names of the specification. An exception on the way
  leaves no summary.\<close>

record summary =
  total_count :: nat
  avg_daily_rate :: real
  avg_resolution_hours :: "real option"
  resolution_rate_pct :: real
  open_count :: nat

definition summarize :: "row list \<Rightarrow> error + summary" where
  "summarize dff =
     (case filtered_resolution_rate dff of
        Inl e \<Rightarrow> Inl e
      | Inr rate \<Rightarrow>
          (case filtered_avg_daily_complaints dff of
             Inl e \<Rightarrow> Inl e
           | Inr daily \<Rightarrow>
               Inr \<lparr> total_count = total_filtered_complaints dff,
                     avg_daily_rate = daily,
                     avg_resolution_hours = filtered_avg_resolution_time dff,
                     resolution_rate_pct = rate,
                     open_count = active_open_complaints dff \<rparr>))"

subsection \<open>The grouped breakdowns\<close>



subsection \<open>The specification's words\<close>

text \<open>A record is included iff its district, branch and type are in the criteria's sets
  and its received time is present with its date inside the inclusive range.\<close>

definition spec_included :: "criteria \<Rightarrow> row \<Rightarrow> bool" where
  "spec_included c r =
     (df_Location_District r \<in> set (selected_districts c)
      \<and> df_Branch_Name r \<in> set (selected_branches c)
      \<and> df_Type_of_Complaint_Received r \<in> set (selected_types c)
      \<and> (case df_Time_Complaint_Received r of
           None \<Rightarrow> False
         | Some t \<Rightarrow> start_date c \<le> date_of t \<and> date_of t \<le> end_date c))"

text \<open>The mean of the resolution hours over the closed rows, ignoring absent values;
  absent when no value is left.\<close>

definition spec_avg_resolution_hours :: "row list \<Rightarrow> real option" where
  "spec_avg_resolution_hours rows =
     (let hs = dropna (map df_Resolution_Time_Hours
                  (filter (\<lambda>r. df_Complaint_Status r = Str ''Closed'') rows))
      in if hs = [] then None else Some (sum_list hs / real (length hs)))"


subsection \<open>The text columns on both sides of the file\<close>


subsection \<open>Example rows\<close>

text \<open>Rows and criteria for the concrete instances below.\<close>

definition at_2024_01 :: "nat \<Rightarrow> nat \<Rightarrow> timestamp" where
  "at_2024_01 d h = \<lparr> year = 2024, month = 1, day = d, hour = h, minute = 0, second = 0, nanosecond = 0 \<rparr>"

definition example_row :: "string \<Rightarrow> timestamp option \<Rightarrow> string \<Rightarrow> real option \<Rightarrow> row" where
  "example_row cid received status hours =
     \<lparr> df_Complaint_ID = Str cid,
       df_Type_of_Complaint_Received = Str ''Leak'',
       df_Time_Complaint_Received = received,
       df_Time_Complaint_Resolved = NaN,
       df_Assigned_Staff = Str ''Aline'',
       df_Complaint_Status = Str status,
       df_Location_District = Str ''Gasabo'',
       df_Branch_Name = Str ''Remera'',
       df_Resolution_Time = NaN,
       df_Resolution_Time_Hours = hours \<rparr>"

definition example_criteria :: "int \<Rightarrow> int \<Rightarrow> criteria" where
  "example_criteria d1 d2 =
     \<lparr> selected_districts = [Str ''Gasabo''], selected_branches = [Str ''Remera''],
       selected_types = [Str ''Leak''], start_date = d1, end_date = d2 \<rparr>"

section \<open>Properties of the normalizer\<close>

subsection \<open>Two parsed texts\<close>




subsection \<open>The derived duration\<close>




subsection \<open>Cleaning of the text columns\<close>




lemma clean_string_cases:
  "clean_string c = (if strip (astype_str c) = ''nan'' then ''Unknown'' else strip (astype_str c))"
  by (simp add: clean_string_def replace_value_def)



lemma strip_nan: "strip ''nan'' = ''nan''"
  by (simp add: strip_def isspace_def)



lemma process_row_string_col:
  "(src, col) \<in> set string_col_pairs \<Longrightarrow> col (process_row to_datetime r) = clean_string (src r)"
  by (auto simp: string_col_pairs_def process_row_def Let_def)





text \<open>
  C10. A raw value of a text column that, converted to text and stripped, is exactly
  \<^verbatim>\<open>nan\<close> becomes \<^verbatim>\<open>Unknown\<close>, the same value that a row with the raw value missing
  gets in that column.
\<close>

theorem nan_text_becomes_Unknown:
  assumes "(src, col) \<in> set string_col_pairs"
    and "strip (astype_str (src r)) = ''nan''"
    and "src r' = NaN"
  shows "col (process_row to_datetime r) = ''Unknown''
         \<and> col (process_row to_datetime r') = col (process_row to_datetime r)"
  using assms(2,3)
  by (simp add: process_row_string_col [OF assms(1)] clean_string_cases strip_nan)

theorem nan_text_becomes_Unknown_witness:
  "(raw_Branch, Branch_Name) \<in> set string_col_pairs
   \<and> strip (astype_str (Str '' nan '')) = ''nan''
   \<and> Branch_Name (process_row to_datetime_coerce
       \<lparr> raw_Complaint_ID = Str ''C-5'', raw_Type_of_Complaint = Str ''Leak'',
         raw_Time_Received = Str ''2024-01-01 08:00:00'',
         raw_Time_Resolved = Str ''2024-01-01 10:00:00'',
         raw_Assigned_To = Str ''Aline'', raw_Complaint_Status = Str ''Closed'',
         raw_District = Str ''Gasabo'', raw_Branch = Str '' nan '' \<rparr>) = ''Unknown''
   \<and> Branch_Name (process_row to_datetime_coerce
       \<lparr> raw_Complaint_ID = Str ''C-6'', raw_Type_of_Complaint = Str ''Leak'',
         raw_Time_Received = Str ''2024-01-01 08:00:00'',
         raw_Time_Resolved = Str ''2024-01-01 10:00:00'',
         raw_Assigned_To = Str ''Aline'', raw_Complaint_Status = Str ''Closed'',
         raw_District = Str ''Gasabo'', raw_Branch = NaN \<rparr>) = ''Unknown''"
proof -
  let ?r = "\<lparr> raw_Complaint_ID = Str ''C-5'', raw_Type_of_Complaint = Str ''Leak'',
         raw_Time_Received = Str ''2024-01-01 08:00:00'',
         raw_Time_Resolved = Str ''2024-01-01 10:00:00'',
         raw_Assigned_To = Str ''Aline'', raw_Complaint_Status = Str ''Closed'',
         raw_District = Str ''Gasabo'', raw_Branch = Str '' nan '' \<rparr>"
  let ?r' = "\<lparr> raw_Complaint_ID = Str ''C-6'', raw_Type_of_Complaint = Str ''Leak'',
         raw_Time_Received = Str ''2024-01-01 08:00:00'',
         raw_Time_Resolved = Str ''2024-01-01 10:00:00'',
         raw_Assigned_To = Str ''Aline'', raw_Complaint_Status = Str ''Closed'',
         raw_District = Str ''Gasabo'', raw_Branch = NaN \<rparr>"
  have m: "(raw_Branch, Branch_Name) \<in> set string_col_pairs"
    by (simp add: string_col_pairs_def)
  have s: "strip (astype_str (raw_Branch ?r)) = ''nan''"
    by (simp add: strip_def isspace_def)
  have n: "raw_Branch ?r' = NaN"
    by simp
  from nan_text_becomes_Unknown [OF m s n, of to_datetime_coerce] m s
  show ?thesis by simp
qed

subsection \<open>Rows are kept\<close>




section \<open>Properties of the dashboard\<close>

subsection \<open>The average resolution time\<close>

lemma fold_mean_acc:
  "fold (\<lambda>x (s, n). case x of None \<Rightarrow> (s, n) | Some v \<Rightarrow> (s + v, Suc n)) col (s0, n0)
     = (s0 + sum_list (dropna col), n0 + length (dropna col))"
proof (induction col arbitrary: s0 n0)
  case Nil
  then show ?case by simp
next
  case (Cons x col)
  then show ?case by (cases x) (simp_all add: add.assoc)
qed

lemma series_mean_dropna:
  "series_mean col =
     (if dropna col = [] then None else Some (sum_list (dropna col) / real (length (dropna col))))"
  by (simp add: series_mean_def fold_mean_acc)

lemma dropna_Nil_iff: "dropna col = [] \<longleftrightarrow> (\<forall>x \<in> set col. x = None)"
  by (induction col rule: dropna.induct) auto

text \<open>
  C7. The average resolution time of a frame is the mean of the resolution hours over
  the rows whose status is \<^verbatim>\<open>Closed\<close>, rows with absent hours ignored; it is absent
  exactly when no closed row has its hours present (no closed row at all, or all of
  them absent); and it is the average resolution time of the summary of the frame.
\<close>

theorem avg_resolution_hours_is_closed_mean:
  "filtered_avg_resolution_time dff = spec_avg_resolution_hours dff
   \<and> (filtered_avg_resolution_time dff = None \<longleftrightarrow>
        (\<forall>r \<in> set dff. df_Complaint_Status r = Str ''Closed'' \<longrightarrow> df_Resolution_Time_Hours r = None))
   \<and> (\<forall>s. summarize dff = Inr s \<longrightarrow> avg_resolution_hours s = spec_avg_resolution_hours dff)"
proof -
  let ?col = "map df_Resolution_Time_Hours (filtered_closed dff)"
  have m: "filtered_avg_resolution_time dff = spec_avg_resolution_hours dff"
    unfolding filtered_avg_resolution_time_def series_mean_dropna spec_avg_resolution_hours_def
      filtered_closed_def Let_def ..
  have "dropna ?col = [] \<longleftrightarrow>
          (\<forall>r \<in> set dff. df_Complaint_Status r = Str ''Closed'' \<longrightarrow> df_Resolution_Time_Hours r = None)"
    by (auto simp: filtered_closed_def dropna_Nil_iff)
  then have n: "filtered_avg_resolution_time dff = None \<longleftrightarrow>
          (\<forall>r \<in> set dff. df_Complaint_Status r = Str ''Closed'' \<longrightarrow> df_Resolution_Time_Hours r = None)"
    by (simp add: filtered_avg_resolution_time_def series_mean_dropna)
  have "\<forall>s. summarize dff = Inr s \<longrightarrow> avg_resolution_hours s = filtered_avg_resolution_time dff"
    by (auto simp: summarize_def split: sum.splits)
  with m n show ?thesis
    by simp
qed

subsection \<open>The empty frame\<close>

text \<open>
  C8. On the empty frame the indicators are computed without an exception: the count
  is 0, the resolution rate 0, the average resolution time absent, the average daily
  rate 0 (and no complaint is open).
\<close>

theorem empty_summary:
  "summarize [] = Inr \<lparr> total_count = 0, avg_daily_rate = 0, avg_resolution_hours = None,
                          resolution_rate_pct = 0, open_count = 0 \<rparr>"
  by (simp add: summarize_def filtered_resolution_rate_def filtered_avg_daily_complaints_def
      total_filtered_complaints_def filtered_avg_resolution_time_def filtered_closed_def
      series_mean_def active_open_complaints_def)

subsection \<open>The filter\<close>

text \<open>
  C4. The filtered frame holds, in the order of the frame, the rows that the
  specification includes: a row is in it iff it is a row of the frame, its district,
  branch and type are among the selected ones, and its received time is present with
  its date inside the inclusive range. No row of the filtered frame has an absent
  received time.
\<close>

theorem filter_includes_iff:
  "df_filtered df c = filter (spec_included c) df
   \<and> (\<forall>r. r \<in> set (df_filtered df c) \<longleftrightarrow>
          r \<in> set df
          \<and> df_Location_District r \<in> set (selected_districts c)
          \<and> df_Branch_Name r \<in> set (selected_branches c)
          \<and> df_Type_of_Complaint_Received r \<in> set (selected_types c)
          \<and> (\<exists>t. df_Time_Complaint_Received r = Some t
                \<and> start_date c \<le> date_of t \<and> date_of t \<le> end_date c))
   \<and> (\<forall>r \<in> set (df_filtered df c). df_Time_Complaint_Received r \<noteq> None)"
proof -
  have p: "\<And>r. (isin (df_Location_District r) (selected_districts c)
                \<and> isin (df_Branch_Name r) (selected_branches c)
                \<and> isin (df_Type_of_Complaint_Received r) (selected_types c)
                \<and> date_ge (df_Time_Complaint_Received r) (start_date c)
                \<and> date_le (df_Time_Complaint_Received r) (end_date c)) = spec_included c r"
    by (simp add: isin_def spec_included_def split: option.splits)
  have f: "df_filtered df c = filter (spec_included c) df"
    by (simp add: df_filtered_def p)
  show ?thesis
    by (auto simp: f spec_included_def split: option.splits)
qed

subsection \<open>Criteria that select everything\<close>
















lemma to_ns_day2: "to_ns (at_2024_01 2 8) = 1704182400000000000"
  by (simp add: at_2024_01_def to_ns_def days_from_civil_def)

lemma to_ns_day4: "to_ns (at_2024_01 4 9) = 1704358800000000000"
  by (simp add: at_2024_01_def to_ns_def days_from_civil_def)

lemma date_of_day2: "date_of (at_2024_01 2 8) = 19724"
  by (simp add: date_of_def ns_per_day_def to_ns_day2)

lemma date_of_day4: "date_of (at_2024_01 4 9) = 19726"
  by (simp add: date_of_def ns_per_day_def to_ns_day4)

lemma normalize_day2: "normalize (Some (at_2024_01 2 8)) = Inr 1704153600000000000"
  by (simp add: ns_per_day_def to_ns_day2)

lemma normalize_day4: "normalize (Some (at_2024_01 4 9)) = Inr 1704326400000000000"
  by (simp add: ns_per_day_def to_ns_day4)







lemmas indicator_defs =
  summarize_def filtered_resolution_rate_def filtered_avg_daily_complaints_def
  total_filtered_complaints_def filtered_avg_resolution_time_def filtered_closed_def
  active_open_complaints_def series_mean_def py_truediv_def isin_def





theorem filter_includes_iff_witness:
  "df_filtered
     [example_row ''C-1'' (Some (at_2024_01 2 8)) ''Closed'' (Some 2),
      example_row ''C-2'' None ''Open'' None,
      example_row ''C-3'' (Some (at_2024_01 4 9)) ''Pending'' None]
     (example_criteria 19724 19725)
   = [example_row ''C-1'' (Some (at_2024_01 2 8)) ''Closed'' (Some 2)]"
proof -
  let ?df = "[example_row ''C-1'' (Some (at_2024_01 2 8)) ''Closed'' (Some 2),
              example_row ''C-2'' None ''Open'' None,
              example_row ''C-3'' (Some (at_2024_01 4 9)) ''Pending'' None]"
  from filter_includes_iff [of ?df "example_criteria 19724 19725"]
  have "df_filtered ?df (example_criteria 19724 19725)
          = filter (spec_included (example_criteria 19724 19725)) ?df"
    by blast
  then show ?thesis
    by (simp add: spec_included_def example_criteria_def example_row_def date_of_day2
        date_of_day4)
qed

theorem avg_resolution_hours_is_closed_mean_witness:
  "summarize
     [example_row ''C-1'' (Some (at_2024_01 2 8)) ''Closed'' (Some 2),
      example_row ''C-4'' (Some (at_2024_01 2 8)) ''Closed'' (Some 4),
      example_row ''C-5'' (Some (at_2024_01 2 8)) ''Open'' None]
   = Inr \<lparr> total_count = 3, avg_daily_rate = 3, avg_resolution_hours = Some 3,
           resolution_rate_pct = 200 / 3, open_count = 1 \<rparr>
   \<and> spec_avg_resolution_hours
     [example_row ''C-1'' (Some (at_2024_01 2 8)) ''Closed'' (Some 2),
      example_row ''C-4'' (Some (at_2024_01 2 8)) ''Closed'' (Some 4),
      example_row ''C-5'' (Some (at_2024_01 2 8)) ''Open'' None] = Some 3"
proof -
  let ?df = "[example_row ''C-1'' (Some (at_2024_01 2 8)) ''Closed'' (Some 2),
              example_row ''C-4'' (Some (at_2024_01 2 8)) ''Closed'' (Some 4),
              example_row ''C-5'' (Some (at_2024_01 2 8)) ''Open'' None]"
  have d: "total_days (map df_Time_Complaint_Received ?df) = Inr 1"
    by (simp add: total_days_def series_min_def series_max_def ts_min_def ts_max_def
        normalize_day2 ns_per_day_def example_row_def)
  have s: "summarize ?df
      = Inr \<lparr> total_count = 3, avg_daily_rate = 3, avg_resolution_hours = Some 3,
              resolution_rate_pct = 200 / 3, open_count = 1 \<rparr>"
    unfolding summarize_def filtered_avg_daily_complaints_def d
    by (simp add: indicator_defs example_row_def)
  from avg_resolution_hours_is_closed_mean [of ?df] s
  have "spec_avg_resolution_hours ?df = Some 3"
    by auto
  with s show ?thesis
    by simp
qed

section \<open>The canonical file read back\<close>




























section \<open>The grouped breakdowns sorted by count\<close>












end
